theory Spec2Isabelle
  imports Main
begin

section \<open>The board\<close>

text \<open>
  A tile is a \<^verbatim>\<open>div.tile\<close> element. Two entries of its \<^verbatim>\<open>dataset\<close> are read by the game:
  \<^item> \<^verbatim>\<open>dataset["tileIndex"]\<close>, written once by \<^verbatim>\<open>createTiles\<close> as the decimal string of
    \<^verbatim>\<open>i + 1\<close>. The field holds the number that string denotes (\<^verbatim>\<open>+tileIndex\<close>), and
    \<open>None\<close> when the attribute is absent. A decimal string is never empty, so
    \<open>Some n\<close> is truthy and \<open>None\<close> is falsy.
  \<^item> \<^verbatim>\<open>dataset["owned"]\<close>, a string or \<^verbatim>\<open>undefined\<close>.
  The board is the node list \<^verbatim>\<open>getAllElements(".tile")\<close>, in document order.
\<close>

record tile =
  tileIndex :: "int option"
  owned :: "string option"

text \<open>Truthiness of an optional string: defined and not empty.\<close>

definition truthy :: "string option \<Rightarrow> bool" where
  "truthy v = (case v of None \<Rightarrow> False | Some str \<Rightarrow> str \<noteq> [])"

section \<open>The win-line tables of \<^verbatim>\<open>DOMDisplay.checkWinner\<close>\<close>

definition game3Wins :: "int list list" where
  "game3Wins =
    [[0, 1, 2],
     [3, 4, 5],
     [6, 7, 8],
     [0, 3, 6],
     [1, 4, 7],
     [2, 5, 8],
     [0, 4, 8],
     [2, 4, 6]]"

definition game4Wins :: "int list list" where
  "game4Wins =
    [[0, 1, 2, 3],
     [3, 4, 5, 6],
     [6, 7, 8, 9],
     [10, 11, 12, 13],
     [0, 4, 8, 12],
     [1, 5, 9, 13],
     [2, 6, 10, 14],
     [3, 7, 11, 15],
     [0, 5, 10, 15],
     [3, 6, 8, 9]]"

definition game5Wins :: "int list list" where
  "game5Wins =
    [[0, 1, 2, 3, 4],
     [5, 6, 7, 8, 9],
     [10, 11, 12, 13, 14],
     [15, 16, 17, 18, 19],
     [20, 21, 22, 23, 24],
     [0, 5, 10, 15, 20],
     [1, 6, 11, 16, 21],
     [2, 7, 12, 17, 22],
     [3, 8, 13, 18, 23],
     [4, 9, 14, 19, 24],
     [5, 10, 15, 20, 25],
     [5, 10, 15, 20, 25],
     [0, 6, 12, 18, 24],
     [4, 8, 12, 16, 20]]"

text \<open>\<^verbatim>\<open>gameWin\<close> starts as the empty table and is replaced for the modes 3, 4 and 5.\<close>

definition gameWin :: "int \<Rightarrow> int list list" where
  "gameWin gameMode =
    (if gameMode = 3 then game3Wins
     else if gameMode = 4 then game4Wins
     else if gameMode = 5 then game5Wins
     else [])"

section \<open>The loops of \<^verbatim>\<open>DOMDisplay.checkWinner\<close>\<close>

text \<open>
  First loop: the zero-based indices of the tiles marked \<^verbatim>\<open>"X"\<close> and of those marked
  \<^verbatim>\<open>"O"\<close>, pushed in board order onto \<^verbatim>\<open>xTiles\<close> and \<^verbatim>\<open>oTiles\<close>. Both branches
  of the source also ask for a truthy \<^verbatim>\<open>tileIndex\<close>, so a tile without one is skipped
  whatever its mark; the case distinction on \<open>tileIndex\<close> comes first here for that reason.
\<close>

fun collectTiles :: "tile list \<Rightarrow> int list \<Rightarrow> int list \<Rightarrow> int list \<times> int list" where
  "collectTiles [] xTiles oTiles = (xTiles, oTiles)"
| "collectTiles (t # ts) xTiles oTiles =
    (case tileIndex t of
       None \<Rightarrow> collectTiles ts xTiles oTiles
     | Some n \<Rightarrow>
         if owned t = Some ''X'' then collectTiles ts (xTiles @ [n - 1]) oTiles
         else if owned t = Some ''O'' then collectTiles ts xTiles (oTiles @ [n - 1])
         else collectTiles ts xTiles oTiles)"

text \<open>
  Inner loop over one line \<^verbatim>\<open>arr\<close>, carrying the two flags \<^verbatim>\<open>xWinner\<close> and
  \<^verbatim>\<open>oWinner\<close>: the test against \<^verbatim>\<open>xTiles\<close> runs first, the test against
  \<^verbatim>\<open>oTiles\<close> second, on the flags the first test left.
\<close>

fun lineLoop :: "int list \<Rightarrow> int list \<Rightarrow> int list \<Rightarrow> bool \<times> bool \<Rightarrow> bool \<times> bool" where
  "lineLoop xTiles oTiles [] flags = flags"
| "lineLoop xTiles oTiles (a # arr) (xWinner, oWinner) =
    (let (xW1, oW1) = (if a \<in> set xTiles then (xWinner, False) else (False, oWinner));
         (xW2, oW2) = (if a \<in> set oTiles then (False, oW1) else (xW1, False))
     in lineLoop xTiles oTiles arr (xW2, oW2))"

text \<open>Outer loop over the table: the first line that leaves a flag set ends the search.\<close>

fun winLoop :: "int list \<Rightarrow> int list \<Rightarrow> int list list \<Rightarrow> bool" where
  "winLoop xTiles oTiles [] = False"
| "winLoop xTiles oTiles (arr # rest) =
    (let (xWinner, oWinner) = lineLoop xTiles oTiles arr (True, True)
     in if xWinner \<or> oWinner then True else winLoop xTiles oTiles rest)"

section \<open>The state of the game\<close>

text \<open>
  A callback handed to \<^verbatim>\<open>setTimeout\<close>: the one of \<^verbatim>\<open>printWinnerMessage\<close> (after 1000 ms)
  and the two of \<^verbatim>\<open>clickTile\<close> (after 2000 ms). A timer is never cancelled.
\<close>

datatype deferred = HideWinnerMessage | ResetGame | NextRound

text \<open>
  One record holds what the two classes keep between events.
  Of the page: the board, the \<^verbatim>\<open>data-difficulty\<close> of the button that carries
  \<^verbatim>\<open>difficulty__btn--click\<close> (\<open>None\<close> when no button does), the round message
  \<^verbatim>\<open>Round r won by p\<close> as the pair \<open>(r, p)\<close> and the text of the match outcome (both
  \<open>None\<close> while hidden), and the pending timers with their delays. The score and
  round spans only repeat the fields below and the CSS classes only style the page; they
  are left out.
  Of \<^verbatim>\<open>TicTacToe\<close>: \<^verbatim>\<open>score\<close>, \<^verbatim>\<open>players\<close>, \<^verbatim>\<open>currentPlayer\<close>, \<^verbatim>\<open>round\<close> and
  \<^verbatim>\<open>winner\<close>.
\<close>

record game =
  tiles :: "tile list"
  difficulty :: "int option"
  winnerMessage :: "(int \<times> string) option"
  outcome :: "string option"
  timers :: "(nat \<times> deferred) list"
  score_x :: int
  score_o :: int
  players_x :: string
  players_o :: string
  currentPlayer :: string
  round_n :: int
  winner :: bool

section \<open>\<^verbatim>\<open>DOMDisplay\<close>\<close>

definition destroyTiles :: "game \<Rightarrow> game" where
  "destroyTiles s = s\<lparr>tiles := []\<rparr>"

definition createTiles :: "int \<Rightarrow> game \<Rightarrow> game" where
  "createTiles requiredTileCount s =
    s\<lparr>tiles := tiles s @
       map (\<lambda>i. \<lparr>tileIndex = Some (int i + 1), owned = None\<rparr>) [0..<nat requiredTileCount]\<rparr>"

definition printGameBoard :: "int \<Rightarrow> game \<Rightarrow> game" where
  "printGameBoard gameMode s = createTiles (gameMode * gameMode) (destroyTiles s)"

definition clearGameBoard :: "game \<Rightarrow> game" where
  "clearGameBoard s = (destroyTiles s)\<lparr>difficulty := None\<rparr>"

definition clearMessage :: "game \<Rightarrow> game" where
  "clearMessage s = s\<lparr>outcome := None, winnerMessage := None\<rparr>"

definition setTimeout :: "deferred \<Rightarrow> nat \<Rightarrow> game \<Rightarrow> game" where
  "setTimeout callback delay s = s\<lparr>timers := timers s @ [(delay, callback)]\<rparr>"

definition printWinnerMessage :: "int \<Rightarrow> int \<times> string \<Rightarrow> game \<Rightarrow> game" where
  "printWinnerMessage rnd message s =
    setTimeout HideWinnerMessage 1000 (s\<lparr>winnerMessage := Some message\<rparr>)"

definition getCurrentDifficulty :: "game \<Rightarrow> int option" where
  "getCurrentDifficulty s = difficulty s"

text \<open>
  \<^verbatim>\<open>getPlayableTile\<close>: \<^verbatim>\<open>currentTile\<close> is assigned before the test, so a loop that
  never breaks leaves the last tile in it. The result is the position of the tile
  on the board, \<open>None\<close> for \<^verbatim>\<open>undefined\<close>.
\<close>

fun playableLoop :: "tile list \<Rightarrow> nat \<Rightarrow> nat option \<Rightarrow> nat option" where
  "playableLoop [] i currentTile = currentTile"
| "playableLoop (t # ts) i currentTile =
    (if truthy (owned t) then playableLoop ts (Suc i) (Some i) else Some i)"

definition getPlayableTile :: "game \<Rightarrow> nat option" where
  "getPlayableTile s = playableLoop (tiles s) 0 None"

definition playComputer :: "(game \<Rightarrow> nat \<Rightarrow> game) \<Rightarrow> game \<Rightarrow> game" where
  "playComputer clickHandler s =
    (case getPlayableTile s of
       None \<Rightarrow> s
     | Some playableTile \<Rightarrow> clickHandler s playableTile)"

text \<open>
  The listener that \<^verbatim>\<open>bindHandler\<close> puts on every tile, run for a click on the tile at
  position \<open>i\<close> of the board.
\<close>

definition tileListener :: "(game \<Rightarrow> nat \<Rightarrow> game) \<Rightarrow> game \<Rightarrow> nat \<Rightarrow> game" where
  "tileListener clickHandler s i =
    (let tile = tiles s ! i in
     if truthy (owned tile) \<or> tileIndex tile = None then s
     else playComputer clickHandler (clickHandler s i))"

definition selectGameMode :: "int \<Rightarrow> (game \<Rightarrow> nat \<Rightarrow> game) \<Rightarrow> game \<Rightarrow> game" where
  "selectGameMode gameMode clickHandler s = playComputer clickHandler (printGameBoard gameMode s)"

definition startWithDifficulty :: "(game \<Rightarrow> nat \<Rightarrow> game) \<Rightarrow> game \<Rightarrow> game" where
  "startWithDifficulty clickHandler s =
    (case getCurrentDifficulty s of
       None \<Rightarrow> s
     | Some selectedDifficulty \<Rightarrow>
         if selectedDifficulty = 0 then s
         else selectGameMode selectedDifficulty clickHandler (s\<lparr>winnerMessage := None\<rparr>))"

text \<open>
  \<^verbatim>\<open>checkWinner\<close> returns its verdict and, with a verdict of true, has shown the round
  message, which starts the 1000 ms timer.
\<close>

definition checkWinner :: "int \<Rightarrow> string \<Rightarrow> int \<Rightarrow> game \<Rightarrow> bool \<times> game" where
  "checkWinner gameMode player rnd s =
    (let (xTiles, oTiles) = collectTiles (tiles s) [] []
     in if winLoop xTiles oTiles (gameWin gameMode)
        then (True, printWinnerMessage rnd (rnd, player) s)
        else (False, s))"

definition printGameOutcome :: "int \<times> int \<Rightarrow> string \<Rightarrow> game \<Rightarrow> game" where
  "printGameOutcome score player s =
    (case score of (scoreX, scoreO) \<Rightarrow>
       if scoreO = scoreX then s\<lparr>outcome := Some ''Game Tied''\<rparr>
       else if scoreO > scoreX then s\<lparr>outcome := Some ''Game won by Player''\<rparr>
       else s\<lparr>outcome := Some ''Game won by Computer''\<rparr>)"

section \<open>\<^verbatim>\<open>TicTacToe\<close>\<close>

definition increaseScore :: "game \<Rightarrow> game" where
  "increaseScore s =
    (if currentPlayer s = ''Computer'' then s\<lparr>score_x := score_x s + 1\<rparr>
     else s\<lparr>score_o := score_o s + 1\<rparr>)"

definition switchPlayer :: "game \<Rightarrow> game" where
  "switchPlayer s =
    s\<lparr>currentPlayer := (if currentPlayer s = players_x s then players_o s else players_x s)\<rparr>"

definition resetGame :: "game \<Rightarrow> game" where
  "resetGame s =
    (clearMessage (clearGameBoard s))
      \<lparr>players_x := ''Computer'', players_o := ''Player'', currentPlayer := ''Computer'',
       score_x := 0, score_o := 0, winner := False, round_n := 1\<rparr>"

definition checkWinner_TicTacToe :: "int \<Rightarrow> string \<Rightarrow> game \<Rightarrow> bool \<times> game" where
  "checkWinner_TicTacToe rnd player s =
    checkWinner (case getCurrentDifficulty s of None \<Rightarrow> 0 | Some d \<Rightarrow> d) player rnd s"

text \<open>The mark \<^verbatim>\<open>clickTile\<close> writes into \<^verbatim>\<open>dataset["owned"]\<close>.\<close>

definition mark :: "string \<Rightarrow> string" where
  "mark player = (if player = ''Computer'' then ''X'' else ''O'')"

text \<open>
  The first two assignments of \<^verbatim>\<open>clickTile\<close>, to \<^verbatim>\<open>tile.dataset["owned"]\<close> and to
  \<^verbatim>\<open>tile.innerHTML\<close>, for the tile at position \<open>i\<close> of the board. An element that
  is not on the board (\<open>i\<close> out of range) takes the mark without the board changing.
\<close>

definition placeMark :: "game \<Rightarrow> nat \<Rightarrow> game" where
  "placeMark s i =
    (if i < length (tiles s)
     then s\<lparr>tiles := (tiles s)[i := (tiles s ! i)\<lparr>owned := Some (mark (currentPlayer s))\<rparr>]\<rparr>
     else s)"

text \<open>
  \<^verbatim>\<open>clickTile\<close> on the tile at position \<open>i\<close> of the board.
  \<^verbatim>\<open>updateScore(--this.round, ...)\<close> takes back the increment of \<^verbatim>\<open>this.round\<close>.
\<close>

definition clickTile :: "game \<Rightarrow> nat \<Rightarrow> game" where
  "clickTile s i =
    (if winner s then s
     else
       let s1 = placeMark s i;
           (won, s2) = checkWinner_TicTacToe (round_n s1) (currentPlayer s1) s1;
           s3 = s2\<lparr>winner := won\<rparr>
       in if \<not> winner s3 then switchPlayer s3
          else
            let s4 = s3\<lparr>round_n := round_n s3 + 1\<rparr>
            in if round_n s4 > (case getCurrentDifficulty s4 of None \<Rightarrow> 0 | Some d \<Rightarrow> d)
               then
                 let s5 = increaseScore s4;
                     s6 = s5\<lparr>round_n := round_n s5 - 1\<rparr>;
                     s7 = printGameOutcome (score_x s6, score_o s6) (currentPlayer s6) s6
                 in setTimeout ResetGame 2000 s7
               else
                 let s5 = increaseScore s4;
                     s6 = s5\<lparr>round_n := round_n s5 - 1\<rparr>;
                     s7 = s6\<lparr>players_x := ''Computer'', players_o := ''Player''\<rparr>;
                     s8 = s7\<lparr>currentPlayer := players_x s7\<rparr>
                 in setTimeout NextRound 2000 s8)"

text \<open>The listener of \<^verbatim>\<open>selectDifficulty\<close>, for a click on the button whose
  \<^verbatim>\<open>data-difficulty\<close> is \<open>selectedDifficulty\<close>.\<close>

definition selectDifficulty :: "(game \<Rightarrow> nat \<Rightarrow> game) \<Rightarrow> int \<Rightarrow> game \<Rightarrow> game" where
  "selectDifficulty clickHandler selectedDifficulty s =
    selectGameMode selectedDifficulty clickHandler
      ((clearMessage (s\<lparr>difficulty := Some selectedDifficulty\<rparr>))
         \<lparr>players_x := ''Computer'', players_o := ''Player'', currentPlayer := ''Computer'',
          score_x := 0, score_o := 0, winner := False, round_n := 1\<rparr>)"

section \<open>Events\<close>

text \<open>What a timer does when it fires.\<close>

fun runDeferred :: "deferred \<Rightarrow> game \<Rightarrow> game" where
  "runDeferred HideWinnerMessage s = (destroyTiles s)\<lparr>winnerMessage := None\<rparr>"
| "runDeferred ResetGame s = resetGame s"
| "runDeferred NextRound s =
    startWithDifficulty clickTile (s\<lparr>winner := False, round_n := round_n s + 1\<rparr>)"

text \<open>
  The page runs one event at a time: a click on the tile at a position of the board, a
  click on a difficulty button, a click on the new-game button, or a pending timer
  firing. Which timer fires next is left open, so what holds for every event holds
  for the order the browser picks.
\<close>

datatype event = Click nat | SelectDifficulty int | NewGame | Timeout nat

fun step :: "game \<Rightarrow> event \<Rightarrow> game" where
  "step s (Click i) = (if i < length (tiles s) then tileListener clickTile s i else s)"
| "step s (SelectDifficulty n) = selectDifficulty clickTile n s"
| "step s NewGame = resetGame s"
| "step s (Timeout k) =
    (if k < length (timers s)
     then runDeferred (snd (timers s ! k)) (s\<lparr>timers := take k (timers s) @ drop (Suc k) (timers s)\<rparr>)
     else s)"

text \<open>The state after the constructor and \<^verbatim>\<open>startGame\<close>, on a page without tiles.\<close>

definition startGame :: game where
  "startGame =
    resetGame \<lparr>tiles = [], difficulty = None, winnerMessage = None, outcome = None, timers = [],
      score_x = 0, score_o = 0, players_x = ''Computer'', players_o = ''Player'',
      currentPlayer = ''Computer'', round_n = 1, winner = False\<rparr>"

section \<open>Spec-side description of the win lines\<close>

text \<open>
  The lines the specification names for an \<open>n\<close> by \<open>n\<close> grid numbered row by row from 0:
  the \<open>n\<close> rows, the \<open>n\<close> columns and the two diagonals. These follow the
  specification's words, to be compared with the tables above.
\<close>

definition spec_rows :: "nat \<Rightarrow> int list list" where
  "spec_rows n = map (\<lambda>r. map (\<lambda>c. int (r * n + c)) [0..<n]) [0..<n]"

definition spec_columns :: "nat \<Rightarrow> int list list" where
  "spec_columns n = map (\<lambda>c. map (\<lambda>r. int (r * n + c)) [0..<n]) [0..<n]"

definition spec_diagonals :: "nat \<Rightarrow> int list list" where
  "spec_diagonals n =
    [map (\<lambda>k. int (k * n + k)) [0..<n], map (\<lambda>k. int (k * n + (n - 1 - k))) [0..<n]]"

section \<open>Example states\<close>

text \<open>A board as \<^verbatim>\<open>createTiles\<close> numbers it, with the given marks.\<close>

definition boardOf :: "string option list \<Rightarrow> tile list" where
  "boardOf marks = map (\<lambda>(i, m). \<lparr>tileIndex = Some (int i + 1), owned = m\<rparr>) (enumerate 0 marks)"

text \<open>A game in progress: board, selected difficulty, score, player to move and round.\<close>

definition inPlay :: "string option list \<Rightarrow> int \<Rightarrow> int \<times> int \<Rightarrow> string \<Rightarrow> int \<Rightarrow> game" where
  "inPlay marks d score player rnd =
    \<lparr>tiles = boardOf marks, difficulty = Some d, winnerMessage = None, outcome = None,
     timers = [], score_x = fst score, score_o = snd score, players_x = ''Computer'',
     players_o = ''Player'', currentPlayer = player, round_n = rnd, winner = False\<rparr>"

text \<open>3 by 3, round 1: the computer holds the top row, the player two cells of the middle row.\<close>

definition topRowX :: game where
  "topRowX =
    inPlay [Some ''X'', Some ''X'', Some ''X'',
            Some ''O'', Some ''O'', None,
            None, None, None] 3 (0, 0) ''Player'' 1"

text \<open>3 by 3: the player, to move, holds cells 1 and 4 of the middle column and cell 7 is free.\<close>

definition playerToWin :: "int \<times> int \<Rightarrow> int \<Rightarrow> game" where
  "playerToWin score rnd =
    inPlay [Some ''X'', Some ''O'', Some ''X'',
            Some ''X'', Some ''O'', None,
            None, None, None] 3 score ''Player'' rnd"

text \<open>3 by 3: the computer, to move, holds cells 0 and 1 of the top row and cell 2 is free.\<close>

definition computerToWin :: "int \<times> int \<Rightarrow> int \<Rightarrow> game" where
  "computerToWin score rnd =
    inPlay [Some ''X'', Some ''X'', None,
            Some ''O'', Some ''O'', None,
            None, None, None] 3 score ''Computer'' rnd"

text \<open>4 by 4, last round at 2 to 1: the player, to move, holds cells 0, 4, 8 and cell 12 is free.\<close>

definition playerToTie :: game where
  "playerToTie =
    inPlay [Some ''O'', Some ''X'', Some ''X'', None,
            Some ''O'', Some ''X'', None, None,
            Some ''O'', Some ''X'', None, None,
            None, None, None, None] 4 (2, 1) ''Player'' 4"

text \<open>3 by 3, round 1, after the computer's first move and the player's answer.\<close>

definition afterOpening :: game where
  "afterOpening =
    inPlay [Some ''X'', Some ''O'', None,
            None, None, None,
            None, None, None] 3 (0, 0) ''Computer'' 1"

text \<open>4 by 4 with every tile marked and no line won, the computer to move.\<close>

definition fullBoard :: game where
  "fullBoard =
    inPlay [Some ''X'', Some ''O'', Some ''X'', Some ''O'',
            Some ''X'', Some ''O'', Some ''X'', Some ''O'',
            Some ''O'', Some ''X'', Some ''O'', Some ''X'',
            Some ''O'', Some ''X'', Some ''X'', Some ''O''] 4 (0, 0) ''Computer'' 1"

text \<open>4 by 4, round 1, cell 15 alone free and the player to move: the state after the
  difficulty button 4 and the player's clicks on cells 1, 3, 5, 7, 9, 12 and 14.\<close>

definition lastCellFree :: game where
  "lastCellFree =
    inPlay [Some ''X'', Some ''O'', Some ''X'', Some ''O'',
            Some ''X'', Some ''O'', Some ''X'', Some ''O'',
            Some ''X'', Some ''O'', Some ''X'', Some ''X'',
            Some ''O'', Some ''X'', Some ''O'', None] 4 (0, 0) ''Player'' 1"

section \<open>Facts about the win check\<close>

lemma lineLoop_flags:
  "lineLoop xTiles oTiles arr (xW, oW) =
     (xW \<and> (\<forall>a\<in>set arr. a \<in> set xTiles \<and> a \<notin> set oTiles),
      oW \<and> (\<forall>a\<in>set arr. a \<in> set oTiles \<and> a \<notin> set xTiles))"
  by (induction arr arbitrary: xW oW) auto

lemma winLoop_iff:
  "winLoop xTiles oTiles table \<longleftrightarrow>
     (\<exists>arr\<in>set table. (\<forall>a\<in>set arr. a \<in> set xTiles \<and> a \<notin> set oTiles)
                     \<or> (\<forall>a\<in>set arr. a \<in> set oTiles \<and> a \<notin> set xTiles))"
  by (induction table) (auto simp: lineLoop_flags)

lemma fst_checkWinner:
  "fst (checkWinner gameMode player rnd s) =
     winLoop (fst (collectTiles (tiles s) [] [])) (snd (collectTiles (tiles s) [] []))
       (gameWin gameMode)"
  by (cases "collectTiles (tiles s) [] []") (simp add: checkWinner_def)

lemma checkWinner_False:
  "\<not> fst (checkWinner gameMode player rnd s) \<Longrightarrow> checkWinner gameMode player rnd s = (False, s)"
  by (cases "collectTiles (tiles s) [] []") (simp add: checkWinner_def split: if_splits)

lemma checkWinner_True:
  "fst (checkWinner gameMode player rnd s) \<Longrightarrow>
     checkWinner gameMode player rnd s = (True, printWinnerMessage rnd (rnd, player) s)"
  by (cases "collectTiles (tiles s) [] []") (simp add: checkWinner_def split: if_splits)

lemma checkWinner_TicTacToe_cases:
  obtains (lost) "checkWinner_TicTacToe rnd player s = (False, s)"
  | (won) "checkWinner_TicTacToe rnd player s = (True, printWinnerMessage rnd (rnd, player) s)"
  unfolding checkWinner_TicTacToe_def using checkWinner_False checkWinner_True by blast

section \<open>Facts about \<^verbatim>\<open>clickTile\<close>\<close>

lemmas step_defs = printWinnerMessage_def setTimeout_def printGameOutcome_def
  increaseScore_def switchPlayer_def getCurrentDifficulty_def

lemma placeMark_fields [simp]:
  "winner (placeMark s i) = winner s" "round_n (placeMark s i) = round_n s"
  "currentPlayer (placeMark s i) = currentPlayer s" "timers (placeMark s i) = timers s"
  "difficulty (placeMark s i) = difficulty s" "players_x (placeMark s i) = players_x s"
  "players_o (placeMark s i) = players_o s" "score_x (placeMark s i) = score_x s"
  "score_o (placeMark s i) = score_o s" "length (tiles (placeMark s i)) = length (tiles s)"
  by (simp_all add: placeMark_def)

text \<open>The three ways out of \<^verbatim>\<open>clickTile\<close> once the winner flag is clear.\<close>

lemma clickTile_lost:
  assumes "\<not> winner s" "checkWinner_TicTacToe (round_n s) (currentPlayer s) (placeMark s i) = (False, s2)"
  shows "clickTile s i = switchPlayer (s2\<lparr>winner := False\<rparr>)"
  using assms by (simp add: clickTile_def Let_def)

lemma clickTile_won_final:
  assumes "\<not> winner s" "checkWinner_TicTacToe (round_n s) (currentPlayer s) (placeMark s i) = (True, s2)"
    and "round_n s2 + 1 > (case difficulty s2 of None \<Rightarrow> 0 | Some d \<Rightarrow> d)"
  shows "clickTile s i =
    setTimeout ResetGame 2000
      (printGameOutcome (score_x (increaseScore s2), score_o (increaseScore s2)) (currentPlayer s2)
         ((increaseScore (s2\<lparr>winner := True\<rparr>))))"
  using assms by (simp add: clickTile_def Let_def step_defs)

lemma clickTile_won_next:
  assumes "\<not> winner s" "checkWinner_TicTacToe (round_n s) (currentPlayer s) (placeMark s i) = (True, s2)"
    and "\<not> round_n s2 + 1 > (case difficulty s2 of None \<Rightarrow> 0 | Some d \<Rightarrow> d)"
  shows "clickTile s i =
    setTimeout NextRound 2000
      ((increaseScore (s2\<lparr>winner := True\<rparr>))
         \<lparr>players_x := ''Computer'', players_o := ''Player'', currentPlayer := ''Computer''\<rparr>)"
  using assms by (simp add: clickTile_def Let_def step_defs)



lemma clickTile_tiles: "tiles (clickTile s i) = (if winner s then tiles s else tiles (placeMark s i))"
proof (cases "winner s")
  case True
  then show ?thesis by (simp add: clickTile_def)
next
  case False
  show ?thesis
  proof (cases rule: checkWinner_TicTacToe_cases [of "round_n s" "currentPlayer s" "placeMark s i"])
    case lost
    from clickTile_lost [OF False lost] show ?thesis using False by (simp add: step_defs)
  next
    case won
    then show ?thesis
      using False by (simp add: clickTile_def Let_def step_defs)
  qed
qed

lemma clickTile_no_win:
  assumes "\<not> winner (clickTile s i)"
  shows "timers (clickTile s i) = timers s"
    and "currentPlayer (clickTile s i) = (if currentPlayer s = players_x s then players_o s else players_x s)"
proof -
  have nw: "\<not> winner s" using assms by (auto simp: clickTile_def)
  have both: "timers (clickTile s i) = timers s \<and>
    currentPlayer (clickTile s i) = (if currentPlayer s = players_x s then players_o s else players_x s)"
  proof (cases rule: checkWinner_TicTacToe_cases [of "round_n s" "currentPlayer s" "placeMark s i"])
    case lost
    from clickTile_lost [OF nw lost] show ?thesis by (simp add: step_defs)
  next
    case won
    then have "winner (clickTile s i)"
      using nw by (simp add: clickTile_def Let_def step_defs)
    with assms show ?thesis by simp
  qed
  from both show "timers (clickTile s i) = timers s" by simp
  from both show "currentPlayer (clickTile s i) = (if currentPlayer s = players_x s then players_o s else players_x s)" by simp
qed

lemma clickTile_win:
  assumes "\<not> winner s" "winner (clickTile s i)"
  shows "clickTile s i =
     (let s2 = printWinnerMessage (round_n s) (round_n s, currentPlayer s) (placeMark s i) in
      if round_n s + 1 > (case difficulty s of None \<Rightarrow> 0 | Some d \<Rightarrow> d)
      then setTimeout ResetGame 2000
        (printGameOutcome (score_x (increaseScore s2), score_o (increaseScore s2)) (currentPlayer s)
           ((increaseScore (s2\<lparr>winner := True\<rparr>))))
      else setTimeout NextRound 2000
        ((increaseScore (s2\<lparr>winner := True\<rparr>))
           \<lparr>players_x := ''Computer'', players_o := ''Player'', currentPlayer := ''Computer''\<rparr>))"
proof (cases rule: checkWinner_TicTacToe_cases [of "round_n s" "currentPlayer s" "placeMark s i"])
  case lost
  from clickTile_lost [OF assms(1) lost] assms(2) show ?thesis by (simp add: step_defs)
next
  case won
  show ?thesis
  proof (cases "round_n s + 1 > (case difficulty s of None \<Rightarrow> 0 | Some d \<Rightarrow> d)")
    case True
    then show ?thesis
      using clickTile_won_final [OF assms(1) won] by (simp add: step_defs Let_def)
  next
    case False
    then show ?thesis
      using clickTile_won_next [OF assms(1) won] by (simp add: step_defs Let_def)
  qed
qed


section \<open>Facts about \<^verbatim>\<open>getPlayableTile\<close>\<close>

lemma playableLoop_all_owned:
  "\<forall>t\<in>set ts. truthy (owned t) \<Longrightarrow>
     playableLoop ts i cur = (if ts = [] then cur else Some (i + length ts - 1))"
  by (induction ts arbitrary: i cur) auto

lemma playableLoop_first:
  "\<exists>t\<in>set ts. \<not> truthy (owned t) \<Longrightarrow>
     \<exists>k<length ts. playableLoop ts i cur = Some (i + k) \<and> \<not> truthy (owned (ts ! k))
        \<and> (\<forall>j<k. truthy (owned (ts ! j)))"
proof (induction ts arbitrary: i cur)
  case Nil
  then show ?case by simp
next
  case (Cons t ts)
  show ?case
  proof (cases "truthy (owned t)")
    case False
    then have "playableLoop (t # ts) i cur = Some (i + 0) \<and> \<not> truthy (owned ((t # ts) ! 0))
        \<and> (\<forall>j<0. truthy (owned ((t # ts) ! j)))" by simp
    then show ?thesis by blast
  next
    case True
    with Cons.prems have "\<exists>t\<in>set ts. \<not> truthy (owned t)" by auto
    from Cons.IH [OF this, of "Suc i" "Some i"]
    obtain k where k: "k < length ts" "playableLoop ts (Suc i) (Some i) = Some (Suc i + k)"
      "\<not> truthy (owned (ts ! k))" "\<forall>j<k. truthy (owned (ts ! j))" by blast
    have "\<forall>j<Suc k. truthy (owned ((t # ts) ! j))"
      using True k(4) by (auto simp: nth_Cons split: nat.splits)
    with k True have "Suc k < length (t # ts) \<and> playableLoop (t # ts) i cur = Some (i + Suc k)
        \<and> \<not> truthy (owned ((t # ts) ! Suc k)) \<and> (\<forall>j<Suc k. truthy (owned ((t # ts) ! j)))"
      by simp
    then show ?thesis by blast
  qed
qed

section \<open>The round counter along a run\<close>










section \<open>The winner flag after a fresh board\<close>






section \<open>Evaluating the example states\<close>

lemmas example_defs = inPlay_def boardOf_def enumerate_eq_zip

lemmas run_defs = clickTile_def placeMark_def checkWinner_TicTacToe_def checkWinner_def
  gameWin_def game3Wins_def game4Wins_def mark_def truthy_def tileListener_def playComputer_def
  getPlayableTile_def step_defs Let_def

lemma topRowX_tiles: "collectTiles (tiles topRowX) [] [] = ([0, 1, 2], [3, 4])"
  by (simp add: topRowX_def example_defs)



lemmas start_defs = startGame_def resetGame_def clearMessage_def clearGameBoard_def
  destroyTiles_def selectDifficulty_def selectGameMode_def printGameBoard_def createTiles_def
  startWithDifficulty_def

lemma reach_lastCellFree:
  "foldl step startGame
     [SelectDifficulty 4, Click 1, Click 3, Click 5, Click 7, Click 9, Click 12, Click 14]
   = lastCellFree"
  by (simp add: lastCellFree_def start_defs run_defs example_defs upt_rec)


section \<open>The claims\<close>


text \<open>
  C2 (contradicted by the code). The claim: for each size 3, 4 and 5 the table holds the
  rows, the columns and both diagonals of the grid, and every index lies between 0 and
  the square of the size minus 1. The table for 3 is exactly those eight lines. The table
  for 4 lacks the row 4, 5, 6, 7 and the diagonal 3, 6, 9, 12; the table for 5 lists
  the line 5, 10, 15, 20, 25, whose last index is beyond 24.
\<close>

theorem win_tables_against_grid_lines:
  "set (gameWin 3) = set (spec_rows 3 @ spec_columns 3 @ spec_diagonals 3)
   \<and> [4, 5, 6, 7] \<in> set (spec_rows 4) \<and> [4, 5, 6, 7] \<notin> set (gameWin 4)
   \<and> [3, 6, 9, 12] \<in> set (spec_diagonals 4) \<and> [3, 6, 9, 12] \<notin> set (gameWin 4)
   \<and> [5, 10, 15, 20, 25] \<in> set (gameWin 5) \<and> \<not> (25::int) \<le> 5 * 5 - 1"
  by (simp add: gameWin_def game3Wins_def game4Wins_def game5Wins_def spec_rows_def
      spec_columns_def spec_diagonals_def upt_rec insert_commute)

text \<open>
  C3 (contradicted by the code). The claim: the move operation on a cell that is already
  owned leaves the board and all ownership unchanged. In a 4 by 4 game the player fills
  the last free cell, 15, with \<^verbatim>\<open>"O"\<close> and does not win; the listener then lets the
  computer play, \<^verbatim>\<open>getPlayableTile\<close> returns tile 15 although it is owned, and
  \<^verbatim>\<open>clickTile\<close>, which has no test of ownership, hands the cell to the computer. The
  listener that \<^verbatim>\<open>bindHandler\<close> puts on the tiles does test ownership and refuses
  the same tile.
\<close>

theorem playComputer_overwrites_player_tile:
  "foldl step startGame
     [SelectDifficulty 4, Click 1, Click 3, Click 5, Click 7, Click 9, Click 12, Click 14]
     = lastCellFree
   \<and> owned (tiles lastCellFree ! 15) = None
   \<and> currentPlayer lastCellFree = ''Player''
   \<and> owned (tiles (clickTile lastCellFree 15) ! 15) = Some ''O''
   \<and> \<not> winner (clickTile lastCellFree 15)
   \<and> getPlayableTile (clickTile lastCellFree 15) = Some 15
   \<and> step lastCellFree (Click 15) = clickTile (clickTile lastCellFree 15) 15
   \<and> owned (tiles (step lastCellFree (Click 15)) ! 15) = Some ''X''
   \<and> tileListener clickTile (clickTile lastCellFree 15) 15 = clickTile lastCellFree 15"
proof -
  have run: "foldl step startGame
     [SelectDifficulty 4, Click 1, Click 3, Click 5, Click 7, Click 9, Click 12, Click 14]
     = lastCellFree"
    by (rule reach_lastCellFree)
  have "owned (tiles lastCellFree ! 15) = None
   \<and> currentPlayer lastCellFree = ''Player''
   \<and> owned (tiles (clickTile lastCellFree 15) ! 15) = Some ''O''
   \<and> \<not> winner (clickTile lastCellFree 15)
   \<and> getPlayableTile (clickTile lastCellFree 15) = Some 15
   \<and> step lastCellFree (Click 15) = clickTile (clickTile lastCellFree 15) 15
   \<and> owned (tiles (step lastCellFree (Click 15)) ! 15) = Some ''X''
   \<and> tileListener clickTile (clickTile lastCellFree 15) 15 = clickTile lastCellFree 15"
    by (simp add: lastCellFree_def run_defs example_defs)
  with run show ?thesis
    by blast
qed

text \<open>
  C4. A line with a cell in \<^verbatim>\<open>xTiles\<close> and a cell in \<^verbatim>\<open>oTiles\<close> leaves both flags
  false. \<^verbatim>\<open>checkWinner\<close> returns true exactly when some line of the table leaves a flag
  set, and a flag stays set exactly when every index of the line is in that owner's list
  and in no case in the other's.
\<close>

theorem mixed_line_never_wins:
  "collectTiles (tiles s) [] [] = (xTiles, oTiles) \<Longrightarrow>
     ((\<exists>a\<in>set arr. a \<in> set xTiles) \<and> (\<exists>b\<in>set arr. b \<in> set oTiles)
        \<longrightarrow> lineLoop xTiles oTiles arr (True, True) = (False, False))
   \<and> (fst (checkWinner gameMode player rnd s) \<longleftrightarrow>
        (\<exists>line\<in>set (gameWin gameMode).
            fst (lineLoop xTiles oTiles line (True, True))
            \<or> snd (lineLoop xTiles oTiles line (True, True))))
   \<and> (fst (lineLoop xTiles oTiles arr (True, True))
        \<longleftrightarrow> (\<forall>a\<in>set arr. a \<in> set xTiles \<and> a \<notin> set oTiles))
   \<and> (snd (lineLoop xTiles oTiles arr (True, True))
        \<longleftrightarrow> (\<forall>a\<in>set arr. a \<in> set oTiles \<and> a \<notin> set xTiles))"
  by (auto simp: fst_checkWinner winLoop_iff lineLoop_flags)

theorem mixed_line_never_wins_witness:
  "collectTiles (tiles topRowX) [] [] = ([0, 1, 2], [3, 4])
   \<and> (0::int) \<in> set [0, 3, 6] \<and> (0::int) \<in> set [0, 1, 2]
   \<and> (3::int) \<in> set [0, 3, 6] \<and> (3::int) \<in> set [3, 4]
   \<and> lineLoop [0, 1, 2] [3, 4] [0, 3, 6] (True, True) = (False, False)
   \<and> fst (checkWinner 3 ''Computer'' 1 topRowX)"
proof -
  have mixed: "(\<exists>a\<in>set [0, 3, 6]. a \<in> set [0, 1, 2::int]) \<and> (\<exists>b\<in>set [0, 3, 6]. b \<in> set [3, 4::int])"
    by simp
  have top: "[0, 1, 2] \<in> set (gameWin 3)"
    by (simp add: gameWin_def game3Wins_def)
  have "fst (lineLoop [0, 1, 2] [3, 4] [0, 1, 2] (True, True))"
    by simp
  with top have line: "\<exists>line\<in>set (gameWin 3).
      fst (lineLoop [0, 1, 2] [3, 4] line (True, True)) \<or> snd (lineLoop [0, 1, 2] [3, 4] line (True, True))"
    by blast
  from mixed_line_never_wins [OF topRowX_tiles, of "[0, 3, 6]" 3 "''Computer''" 1] mixed line
  show ?thesis
    by (simp add: topRowX_tiles)
qed

text \<open>
  C5. For a game mode other than 3, 4 and 5 the table stays empty and \<^verbatim>\<open>checkWinner\<close>
  returns false, whatever the board and the player, and shows no message and starts no
  timer. The model has no path that raises.
\<close>

theorem checkWinner_unsupported_size:
  "gameMode \<notin> {3, 4, 5} \<Longrightarrow> checkWinner gameMode player rnd s = (False, s)"
  by (cases "collectTiles (tiles s) [] []") (simp add: checkWinner_def gameWin_def)

theorem checkWinner_unsupported_size_witness:
  "(6::int) \<notin> {3, 4, 5} \<and> checkWinner 6 ''Computer'' 1 topRowX = (False, topRowX)"
  using checkWinner_unsupported_size [of 6 "''Computer''" 1 topRowX] by simp

text \<open>
  C6, as the claim states it, fails in its second half: when the player wins a round
  that is not the last, \<^verbatim>\<open>clickTile\<close> sets \<^verbatim>\<open>currentPlayer\<close> back to the computer.
\<close>

theorem currentPlayer_changes_on_player_win:
  "\<not> winner (playerToWin (0, 0) 1)
   \<and> currentPlayer (playerToWin (0, 0) 1) = ''Player''
   \<and> winner (clickTile (playerToWin (0, 0) 1) 7)
   \<and> currentPlayer (clickTile (playerToWin (0, 0) 1) 7) = ''Computer''"
  by (simp add: playerToWin_def run_defs example_defs)

text \<open>
  C6 (amended). For a move taken while the winner flag is clear: a move that does not
  win switches \<^verbatim>\<open>currentPlayer\<close> to the other entry of \<^verbatim>\<open>players\<close>, which with the
  players the game always has is from the computer to the player and back; a move that
  wins the last round (the round plus one exceeds the difficulty) leaves
  \<^verbatim>\<open>currentPlayer\<close> as it was; a move that wins an earlier round sets \<^verbatim>\<open>currentPlayer\<close>
  to the computer.
\<close>

theorem currentPlayer_after_move:
  assumes "\<not> winner s"
  shows "(\<not> winner (clickTile s i) \<longrightarrow>
            currentPlayer (clickTile s i)
              = (if currentPlayer s = players_x s then players_o s else players_x s))
       \<and> (\<not> winner (clickTile s i) \<and> players_x s = ''Computer'' \<and> players_o s = ''Player'' \<longrightarrow>
            (currentPlayer s = ''Computer'' \<longrightarrow> currentPlayer (clickTile s i) = ''Player'')
            \<and> (currentPlayer s = ''Player'' \<longrightarrow> currentPlayer (clickTile s i) = ''Computer''))
       \<and> (winner (clickTile s i)
            \<and> round_n s + 1 > (case getCurrentDifficulty s of None \<Rightarrow> 0 | Some d \<Rightarrow> d) \<longrightarrow>
            currentPlayer (clickTile s i) = currentPlayer s)
       \<and> (winner (clickTile s i)
            \<and> \<not> round_n s + 1 > (case getCurrentDifficulty s of None \<Rightarrow> 0 | Some d \<Rightarrow> d) \<longrightarrow>
            currentPlayer (clickTile s i) = ''Computer'')"
proof (cases "winner (clickTile s i)")
  case False
  then show ?thesis using clickTile_no_win(2) [OF False] by simp
next
  case True
  show ?thesis
    using True by (simp add: clickTile_win [OF assms True] Let_def step_defs)
qed

theorem currentPlayer_after_move_witness:
  "\<not> winner afterOpening \<and> \<not> winner (clickTile afterOpening 2)
   \<and> players_x afterOpening = ''Computer'' \<and> players_o afterOpening = ''Player''
   \<and> currentPlayer afterOpening = ''Computer''
   \<and> currentPlayer (clickTile afterOpening 2) = ''Player''
   \<and> \<not> winner (clickTile (playerToWin (0, 0) 1) 5)
   \<and> players_x (playerToWin (0, 0) 1) = ''Computer''
   \<and> players_o (playerToWin (0, 0) 1) = ''Player''
   \<and> currentPlayer (playerToWin (0, 0) 1) = ''Player''
   \<and> currentPlayer (clickTile (playerToWin (0, 0) 1) 5) = ''Computer''
   \<and> \<not> winner (playerToWin (1, 1) 3) \<and> winner (clickTile (playerToWin (1, 1) 3) 7)
   \<and> round_n (playerToWin (1, 1) 3) + 1
        > (case getCurrentDifficulty (playerToWin (1, 1) 3) of None \<Rightarrow> 0 | Some d \<Rightarrow> d)
   \<and> currentPlayer (playerToWin (1, 1) 3) = ''Player''
   \<and> currentPlayer (clickTile (playerToWin (1, 1) 3) 7) = ''Player''
   \<and> \<not> winner (playerToWin (0, 0) 1) \<and> winner (clickTile (playerToWin (0, 0) 1) 7)
   \<and> \<not> round_n (playerToWin (0, 0) 1) + 1
        > (case getCurrentDifficulty (playerToWin (0, 0) 1) of None \<Rightarrow> 0 | Some d \<Rightarrow> d)
   \<and> currentPlayer (clickTile (playerToWin (0, 0) 1) 7) = ''Computer''"
proof -
  have a: "\<not> winner afterOpening" "\<not> winner (clickTile afterOpening 2)"
    "currentPlayer afterOpening = ''Computer''" "players_x afterOpening = ''Computer''"
    "players_o afterOpening = ''Player''"
    by (simp_all add: afterOpening_def run_defs example_defs)
  have b: "\<not> winner (playerToWin (1, 1) 3)" "winner (clickTile (playerToWin (1, 1) 3) 7)"
    "round_n (playerToWin (1, 1) 3) + 1
       > (case getCurrentDifficulty (playerToWin (1, 1) 3) of None \<Rightarrow> 0 | Some d \<Rightarrow> d)"
    "currentPlayer (playerToWin (1, 1) 3) = ''Player''"
    by (simp_all add: playerToWin_def run_defs example_defs)
  have c: "\<not> winner (playerToWin (0, 0) 1)" "winner (clickTile (playerToWin (0, 0) 1) 7)"
    "\<not> round_n (playerToWin (0, 0) 1) + 1
       > (case getCurrentDifficulty (playerToWin (0, 0) 1) of None \<Rightarrow> 0 | Some d \<Rightarrow> d)"
    by (simp_all add: playerToWin_def run_defs example_defs)
  have d: "\<not> winner (clickTile (playerToWin (0, 0) 1) 5)"
    "players_x (playerToWin (0, 0) 1) = ''Computer''"
    "players_o (playerToWin (0, 0) 1) = ''Player''"
    "currentPlayer (playerToWin (0, 0) 1) = ''Player''"
    by (simp_all add: playerToWin_def run_defs example_defs)
  from currentPlayer_after_move [OF a(1), of 2] a
  have "currentPlayer (clickTile afterOpening 2) = ''Player''" by simp
  moreover from currentPlayer_after_move [OF b(1), of 7] b
  have "currentPlayer (clickTile (playerToWin (1, 1) 3) 7) = ''Player''" by simp
  moreover from currentPlayer_after_move [OF c(1), of 7] c
  have "currentPlayer (clickTile (playerToWin (0, 0) 1) 7) = ''Computer''" by simp
  moreover from currentPlayer_after_move [OF c(1), of 5] d
  have "currentPlayer (clickTile (playerToWin (0, 0) 1) 5) = ''Computer''" by simp
  ultimately show ?thesis using a b c d by simp
qed







text \<open>
  C9. A move that wins the last round (the round plus one exceeds the difficulty) shows
  the match outcome computed from the score after that win: a tie exactly when the two
  scores are equal, otherwise the side with the strictly higher score.
\<close>

theorem final_outcome:
  assumes "\<not> winner s" and "winner (clickTile s i)"
    and "round_n s + 1 > (case getCurrentDifficulty s of None \<Rightarrow> 0 | Some d \<Rightarrow> d)"
  shows "(outcome (clickTile s i) = Some ''Game Tied''
            \<longleftrightarrow> score_o (clickTile s i) = score_x (clickTile s i))
       \<and> (score_x (clickTile s i) < score_o (clickTile s i)
            \<longrightarrow> outcome (clickTile s i) = Some ''Game won by Player'')
       \<and> (score_o (clickTile s i) < score_x (clickTile s i)
            \<longrightarrow> outcome (clickTile s i) = Some ''Game won by Computer'')"
  using assms(3) by (simp add: clickTile_win [OF assms(1,2)] Let_def step_defs)

theorem final_outcome_witness:
  "\<not> winner playerToTie \<and> winner (clickTile playerToTie 12)
   \<and> round_n playerToTie + 1 > (case getCurrentDifficulty playerToTie of None \<Rightarrow> 0 | Some d \<Rightarrow> d)
   \<and> score_x (clickTile playerToTie 12) = 2 \<and> score_o (clickTile playerToTie 12) = 2
   \<and> outcome (clickTile playerToTie 12) = Some ''Game Tied''
   \<and> \<not> winner (playerToWin (1, 1) 3) \<and> winner (clickTile (playerToWin (1, 1) 3) 7)
   \<and> score_x (clickTile (playerToWin (1, 1) 3) 7) = 1
   \<and> score_o (clickTile (playerToWin (1, 1) 3) 7) = 2
   \<and> outcome (clickTile (playerToWin (1, 1) 3) 7) = Some ''Game won by Player''
   \<and> \<not> winner (computerToWin (1, 1) 3) \<and> winner (clickTile (computerToWin (1, 1) 3) 2)
   \<and> score_x (clickTile (computerToWin (1, 1) 3) 2) = 2
   \<and> score_o (clickTile (computerToWin (1, 1) 3) 2) = 1
   \<and> outcome (clickTile (computerToWin (1, 1) 3) 2) = Some ''Game won by Computer''"
proof -
  have a: "\<not> winner playerToTie" "winner (clickTile playerToTie 12)"
    "round_n playerToTie + 1 > (case getCurrentDifficulty playerToTie of None \<Rightarrow> 0 | Some d \<Rightarrow> d)"
    "score_x (clickTile playerToTie 12) = 2" "score_o (clickTile playerToTie 12) = 2"
    by (simp_all add: playerToTie_def run_defs example_defs)
  have b: "\<not> winner (playerToWin (1, 1) 3)" "winner (clickTile (playerToWin (1, 1) 3) 7)"
    "round_n (playerToWin (1, 1) 3) + 1
       > (case getCurrentDifficulty (playerToWin (1, 1) 3) of None \<Rightarrow> 0 | Some d \<Rightarrow> d)"
    "score_x (clickTile (playerToWin (1, 1) 3) 7) = 1"
    "score_o (clickTile (playerToWin (1, 1) 3) 7) = 2"
    by (simp_all add: playerToWin_def run_defs example_defs)
  have c: "\<not> winner (computerToWin (1, 1) 3)" "winner (clickTile (computerToWin (1, 1) 3) 2)"
    "round_n (computerToWin (1, 1) 3) + 1
       > (case getCurrentDifficulty (computerToWin (1, 1) 3) of None \<Rightarrow> 0 | Some d \<Rightarrow> d)"
    "score_x (clickTile (computerToWin (1, 1) 3) 2) = 2"
    "score_o (clickTile (computerToWin (1, 1) 3) 2) = 1"
    by (simp_all add: computerToWin_def run_defs example_defs)
  from final_outcome [OF a(1,2,3)] a(4,5)
  have "outcome (clickTile playerToTie 12) = Some ''Game Tied''" by simp
  moreover from final_outcome [OF b(1,2,3)] b(4,5)
  have "outcome (clickTile (playerToWin (1, 1) 3) 7) = Some ''Game won by Player''" by simp
  moreover from final_outcome [OF c(1,2,3)] c(4,5)
  have "outcome (clickTile (computerToWin (1, 1) 3) 2) = Some ''Game won by Computer''" by simp
  ultimately show ?thesis using a b c by simp
qed

text \<open>
  C10. On a board with a tile that is not owned, \<^verbatim>\<open>getPlayableTile\<close> returns the first
  such tile in board order. On a board with tiles that are all owned it returns the last
  tile, which is owned, and \<^verbatim>\<open>playComputer\<close> then runs the click handler on it. Only on
  a page without tiles does it return \<^verbatim>\<open>undefined\<close>, and \<^verbatim>\<open>playComputer\<close> does nothing.
\<close>

theorem getPlayableTile_first_unowned_or_last:
  "((\<exists>t\<in>set (tiles s). \<not> truthy (owned t)) \<longrightarrow>
      (\<exists>k<length (tiles s). getPlayableTile s = Some k \<and> \<not> truthy (owned (tiles s ! k))
         \<and> (\<forall>j<k. truthy (owned (tiles s ! j)))))
   \<and> (tiles s \<noteq> [] \<and> (\<forall>t\<in>set (tiles s). truthy (owned t)) \<longrightarrow>
        getPlayableTile s = Some (length (tiles s) - 1)
        \<and> truthy (owned (tiles s ! (length (tiles s) - 1)))
        \<and> playComputer clickTile s = clickTile s (length (tiles s) - 1))
   \<and> (tiles s = [] \<longrightarrow> getPlayableTile s = None \<and> playComputer clickTile s = s)"
proof (intro conjI impI)
  assume "\<exists>t\<in>set (tiles s). \<not> truthy (owned t)"
  from playableLoop_first [OF this, of 0 None]
  show "\<exists>k<length (tiles s). getPlayableTile s = Some k \<and> \<not> truthy (owned (tiles s ! k))
         \<and> (\<forall>j<k. truthy (owned (tiles s ! j)))"
    by (simp add: getPlayableTile_def)
next
  assume full: "tiles s \<noteq> [] \<and> (\<forall>t\<in>set (tiles s). truthy (owned t))"
  then show last: "getPlayableTile s = Some (length (tiles s) - 1)"
    by (simp add: getPlayableTile_def playableLoop_all_owned)
  from full show "truthy (owned (tiles s ! (length (tiles s) - 1)))"
    by simp
  from last show "playComputer clickTile s = clickTile s (length (tiles s) - 1)"
    by (simp add: playComputer_def)
next
  assume "tiles s = []"
  then show "getPlayableTile s = None" and "playComputer clickTile s = s"
    by (simp_all add: getPlayableTile_def playComputer_def)
qed

theorem getPlayableTile_first_unowned_or_last_witness:
  "\<not> truthy (owned (tiles afterOpening ! 2))
   \<and> getPlayableTile afterOpening = Some 2
   \<and> tiles fullBoard \<noteq> [] \<and> filter (\<lambda>t. \<not> truthy (owned t)) (tiles fullBoard) = []
   \<and> getPlayableTile fullBoard = Some 15
   \<and> owned (tiles fullBoard ! 15) = Some ''O''
   \<and> playComputer clickTile fullBoard = clickTile fullBoard 15
   \<and> owned (tiles (playComputer clickTile fullBoard) ! 15) = Some ''X''
   \<and> tiles startGame = [] \<and> getPlayableTile startGame = None"
proof -
  have a: "\<not> truthy (owned (tiles afterOpening ! 2))" "getPlayableTile afterOpening = Some 2"
    "\<exists>t\<in>set (tiles afterOpening). \<not> truthy (owned t)"
    by (simp_all add: afterOpening_def example_defs truthy_def getPlayableTile_def)
  have b: "tiles fullBoard \<noteq> []" "filter (\<lambda>t. \<not> truthy (owned t)) (tiles fullBoard) = []"
    "length (tiles fullBoard) - 1 = 15" "owned (tiles fullBoard ! 15) = Some ''O''"
    "owned (tiles (clickTile fullBoard 15) ! 15) = Some ''X''"
    by (simp_all add: fullBoard_def example_defs run_defs)
  from b(2) have full: "\<forall>t\<in>set (tiles fullBoard). truthy (owned t)"
    by (simp add: filter_empty_conv)
  have c: "tiles startGame = []"
    by (simp add: startGame_def resetGame_def clearMessage_def clearGameBoard_def destroyTiles_def)
  from getPlayableTile_first_unowned_or_last [of fullBoard] b full
  have "getPlayableTile fullBoard = Some 15 \<and> playComputer clickTile fullBoard = clickTile fullBoard 15"
    by simp
  moreover from getPlayableTile_first_unowned_or_last [of startGame] c
  have "getPlayableTile startGame = None" by simp
  moreover from getPlayableTile_first_unowned_or_last [of afterOpening] a(3)
  have "\<exists>k. getPlayableTile afterOpening = Some k" by blast
  ultimately show ?thesis using a(1,2) b c by simp
qed

end
